theory Spec2Isabelle
  imports Complex_Main "HOL-Library.AList" "HOL-Library.Word"
begin

section \<open>Exceptions\<close>

text \<open>
  The module raises its own three exception classes (all derived from
  \<^verbatim>\<open>AZCaptchaApiError(Exception)\<close>) and lets exceptions of other classes pass through
  or rewrites them, deciding by \<^verbatim>\<open>except requests.RequestException\<close> and by
  \<^verbatim>\<open>isinstance(e, x)\<close>. An exception of another class is therefore modelled by the list
  of the classes below it is an instance of, and its message. Python classes inherit
  from several bases: \<^verbatim>\<open>requests.exceptions.InvalidURL\<close>, \<^verbatim>\<open>InvalidSchema\<close>,
  \<^verbatim>\<open>MissingSchema\<close> and \<^verbatim>\<open>InvalidHeader\<close> are declared
  \<^verbatim>\<open>(RequestException, ValueError)\<close>, so such an exception is
  \<open>Raised [RequestException, ValueError] msg\<close>.

  \<open>OperationFailedError t\<close> stands for
  \<^verbatim>\<open>OperationFailedError("Operation failed: %r" % (t,))\<close>: the constructor's argument
  is the operand of \<^verbatim>\<open>%r\<close>.
\<close>

datatype pyclass = RequestException | ValueError | IndexError | TypeError | OSError | AttributeError

datatype exn =
    CommunicationError string
  | ResponseFormatError string
  | OperationFailedError string
  | Raised "pyclass list" string

type_synonym 'a result = "exn + 'a"

fun isinstance :: "exn \<Rightarrow> pyclass \<Rightarrow> bool" where
  "isinstance (Raised cs m) c = (c \<in> set cs)"
| "isinstance (CommunicationError m) c = False"
| "isinstance (ResponseFormatError m) c = False"
| "isinstance (OperationFailedError m) c = False"

section \<open>The collaborators: transport, decoder, parsers, file system, clock\<close>

type_synonym bytes = "8 word list"

type_synonym pydict = "(string \<times> string) list"

text \<open>
  A request as \<^verbatim>\<open>requests.get(url, params)\<close> and
  \<^verbatim>\<open>requests.post(url, data, files={'file': (name, raw_data)})\<close> receive it. A dict is
  an association list in insertion order.
\<close>

datatype request =
    GET string pydict
  | POST string pydict "string \<times> string \<times> bytes"

text \<open>
  Everything the module calls and does not define is a field of the environment:
  \<^item> \<open>requests_send k r\<close>: what the \<open>k\<close>-th HTTP call of the run (counted from 0) does
    when it sends \<open>r\<close>: it raises, or it returns a response whose \<^verbatim>\<open>.text\<close> is given;
  \<^item> \<open>unescape\<close>: \<^verbatim>\<open>html.unescape\<close>;
  \<^item> \<open>py_float\<close>: the builtin \<^verbatim>\<open>float\<close> on a string, \<open>None\<close> where it raises
    \<^verbatim>\<open>ValueError\<close>;
  \<^item> \<open>imghdr_what\<close>: \<^verbatim>\<open>imghdr.what(None, h=raw_data)\<close>, \<open>None\<close> for Python's
    \<^verbatim>\<open>None\<close>;
  \<^item> \<open>read_path\<close>: \<^verbatim>\<open>open(path, 'rb')\<close> and \<^verbatim>\<open>f.read()\<close>;
  \<^item> \<open>time_sleep\<close>: \<^verbatim>\<open>time.sleep\<close>, \<open>Some e\<close> where it raises \<open>e\<close>.
\<close>

record ('t, 'f) env =
  requests_send :: "nat \<Rightarrow> request \<Rightarrow> string result"
  unescape :: "string \<Rightarrow> string"
  py_float :: "string \<Rightarrow> 'f option"
  imghdr_what :: "bytes \<Rightarrow> string option"
  read_path :: "string \<Rightarrow> bytes result"
  time_sleep :: "'t \<Rightarrow> exn option"

text \<open>
  The effects a run leaves outside the objects: the HTTP calls made, in order, and
  the sleeps that returned, in order.
\<close>

record 't world =
  calls :: "request list"
  sleeps :: "'t list"

section \<open>Python helpers\<close>

text \<open>\<^verbatim>\<open>s.split(sep)\<close> for a one-character separator: one part more than separators.\<close>

fun str_split :: "char \<Rightarrow> string \<Rightarrow> string list" where
  "str_split sep [] = [[]]"
| "str_split sep (x # xs) =
     (if x = sep then [] # str_split sep xs
      else (case str_split sep xs of
              [] \<Rightarrow> [[x]]
            | p # ps \<Rightarrow> (x # p) # ps))"

text \<open>\<^verbatim>\<open>_, b = parts\<close>: a \<^verbatim>\<open>ValueError\<close> unless there are exactly two parts.\<close>

fun unpack2 :: "string list \<Rightarrow> (string \<times> string) result" where
  "unpack2 [a, b] = Inr (a, b)"
| "unpack2 [] = Inl (Raised [ValueError] ''not enough values to unpack'')"
| "unpack2 [a] = Inl (Raised [ValueError] ''not enough values to unpack'')"
| "unpack2 (a # b # c # ps) = Inl (Raised [ValueError] ''too many values to unpack'')"

section \<open>The decorators\<close>

text \<open>
  A decorated method runs the method inside \<^verbatim>\<open>try\<close>; what the method did to the
  state before it raised stays done. The decorators therefore act on the outcome of
  the run and leave the state alone.
\<close>

definition rewrite_http_to_com_err :: "'a result \<times> 's \<Rightarrow> 'a result \<times> 's" where
  "rewrite_http_to_com_err r =
     (case r of
        (Inl e, s) \<Rightarrow>
          if isinstance e RequestException
          then (Inl (CommunicationError ''an error occurred while communicating with the AZCaptcha API''), s)
          else (Inl e, s)
      | (Inr v, s) \<Rightarrow> (Inr v, s))"

definition rewrite_to_format_err :: "pyclass list \<Rightarrow> 'a result \<times> 's \<Rightarrow> 'a result \<times> 's" where
  "rewrite_to_format_err exception_types r =
     (case r of
        (Inl e, s) \<Rightarrow>
          if list_ex (isinstance e) exception_types
          then (Inl (ResponseFormatError ''unexpected response format''), s)
          else (Inl e, s)
      | (Inr v, s) \<Rightarrow> (Inr v, s))"

text \<open>The one \<^verbatim>\<open>CommunicationError\<close> the module raises.\<close>

definition com_err :: exn where
  "com_err = CommunicationError ''an error occurred while communicating with the AZCaptcha API''"

section \<open>AZCaptchaApi\<close>

record azcaptcha_api =
  api_key :: string

definition BASE_URL :: string where
  "BASE_URL = ''http://azcaptcha.com''"

definition REQ_URL :: string where
  "REQ_URL = BASE_URL @ ''/in.php''"

definition RES_URL :: string where
  "RES_URL = BASE_URL @ ''/res.php''"

definition LOAD_URL :: string where
  "LOAD_URL = BASE_URL @ ''/load.php''"

text \<open>
  \<^verbatim>\<open>get\<close> and \<^verbatim>\<open>post\<close> store the key in the dict they are given and send it. The
  dict is the caller's object, updated in place; the model keeps what is sent. The call
  is logged whether it returns or raises.
\<close>

definition get :: "('t, 'f) env \<Rightarrow> azcaptcha_api \<Rightarrow> string \<Rightarrow> pydict \<Rightarrow> 't world
    \<Rightarrow> string result \<times> 't world" where
  "get env self url params w =
     (let req = GET url (AList.update ''key'' (api_key self) params)
      in (requests_send env (length (calls w)) req, w\<lparr>calls := calls w @ [req]\<rparr>))"

definition post :: "('t, 'f) env \<Rightarrow> azcaptcha_api \<Rightarrow> string \<Rightarrow> pydict \<Rightarrow> string \<times> string \<times> bytes
    \<Rightarrow> 't world \<Rightarrow> string result \<times> 't world" where
  "post env self url data_dict files w =
     (let req = POST url (AList.update ''key'' (api_key self) data_dict) files
      in (requests_send env (length (calls w)) req, w\<lparr>calls := calls w @ [req]\<rparr>))"

definition get_balance :: "('t, 'f) env \<Rightarrow> azcaptcha_api \<Rightarrow> 't world \<Rightarrow> 'f result \<times> 't world" where
  "get_balance env self w =
     rewrite_http_to_com_err (rewrite_to_format_err [ValueError]
       (case get env self RES_URL [(''action'', ''getbalance'')] w of
          (Inl e, w') \<Rightarrow> (Inl e, w')
        | (Inr body, w') \<Rightarrow>
            (case py_float env body of
               None \<Rightarrow> (Inl (Raised [ValueError] ''could not convert string to float''), w')
             | Some v \<Rightarrow> (Inr v, w'))))"

text \<open>
  The \<^verbatim>\<open>date\<close> argument: a \<^verbatim>\<open>str\<close>, or an object whose \<^verbatim>\<open>isoformat()\<close> has the
  given outcome.
\<close>

datatype date_arg = DateStr string | DateObj "string result"

definition get_stats :: "('t, 'f) env \<Rightarrow> azcaptcha_api \<Rightarrow> date_arg \<Rightarrow> 't world
    \<Rightarrow> string result \<times> 't world" where
  "get_stats env self date w =
     rewrite_http_to_com_err
       (case (case date of DateStr s \<Rightarrow> Inr s | DateObj r \<Rightarrow> r) of
          Inl e \<Rightarrow> (Inl e, w)
        | Inr d \<Rightarrow> get env self RES_URL [(''action'', ''getstats''), (''date'', d)] w)"

definition get_load :: "('t, 'f) env \<Rightarrow> azcaptcha_api \<Rightarrow> 't world \<Rightarrow> string result \<times> 't world" where
  "get_load env self w = rewrite_http_to_com_err (get env self LOAD_URL [] w)"

section \<open>Captcha\<close>

record captcha =
  api :: azcaptcha_api
  captcha_id :: string
  cached_result :: "string option"
  reported_bad :: bool

definition Captcha :: "azcaptcha_api \<Rightarrow> string \<Rightarrow> captcha" where
  "Captcha a cid = \<lparr>api = a, captcha_id = cid, cached_result = None, reported_bad = False\<rparr>"

text \<open>
  The \<^verbatim>\<open>file\<close> argument of \<^verbatim>\<open>solve\<close>: a path (a \<^verbatim>\<open>str\<close>), or an object whose
  \<^verbatim>\<open>read()\<close> has the given outcome.
\<close>

datatype file_arg = Path string | FileObj "bytes result"

definition solve :: "('t, 'f) env \<Rightarrow> azcaptcha_api \<Rightarrow> file_arg \<Rightarrow> pydict option \<Rightarrow> 't world
    \<Rightarrow> captcha result \<times> 't world" where
  "solve env self file captcha_parameters w =
     rewrite_http_to_com_err (rewrite_to_format_err [IndexError, ValueError]
       (case (case file of Path p \<Rightarrow> read_path env p | FileObj r \<Rightarrow> r) of
          Inl e \<Rightarrow> (Inl e, w)
        | Inr raw_data \<Rightarrow>
            (case imghdr_what env raw_data of
               None \<Rightarrow> (Inl (Raised [TypeError] ''can only concatenate str (not NoneType) to str''), w)
             | Some file_ext \<Rightarrow>
                 (case post env self REQ_URL
                         (case captcha_parameters of
                            None \<Rightarrow> [(''method'', ''post'')]
                          | Some d \<Rightarrow> if d = [] then [(''method'', ''post'')] else d)
                         (''file'', ''captcha.'' @ file_ext, raw_data) w of
                    (Inl e, w') \<Rightarrow> (Inl e, w')
                  | (Inr text, w') \<Rightarrow>
                      if CHR ''|'' \<in> set text
                      then (case unpack2 (str_split (CHR ''|'') text) of
                              Inl e \<Rightarrow> (Inl e, w')
                            | Inr (u, cid) \<Rightarrow> (Inr (Captcha self cid), w'))
                      else (Inl (OperationFailedError text), w')))))"

definition try_get_result :: "('t, 'f) env \<Rightarrow> captcha \<times> 't world
    \<Rightarrow> string option result \<times> captcha \<times> 't world" where
  "try_get_result env s =
     rewrite_http_to_com_err (rewrite_to_format_err [ValueError]
       (case s of (self, w) \<Rightarrow>
          (case cached_result self of
             Some r \<Rightarrow> (Inr (Some r), self, w)
           | None \<Rightarrow>
               (case get env (api self) RES_URL [(''action'', ''get''), (''id'', captcha_id self)] w of
                  (Inl e, w') \<Rightarrow> (Inl e, self, w')
                | (Inr text, w') \<Rightarrow>
                    if CHR ''|'' \<in> set text
                    then (case unpack2 (str_split (CHR ''|'') (unescape env text)) of
                            Inl e \<Rightarrow> (Inl e, self, w')
                          | Inr (u, captcha_text) \<Rightarrow>
                              (Inr (Some captcha_text), self\<lparr>cached_result := Some captcha_text\<rparr>, w'))
                    else if text \<in> set [''CAPCHA_NOT_READY'', ''CAPTCHA_NOT_READY'']
                    then (Inr None, self, w')
                    else (Inl (OperationFailedError text), self, w')))))"

partial_function (option) await_result :: "('t, 'f) env \<Rightarrow> 't \<Rightarrow> captcha \<times> 't world
    \<Rightarrow> (string result \<times> captcha \<times> 't world) option" where
  "await_result env sleep_time s =
     (case try_get_result env s of
        (Inl e, s') \<Rightarrow> Some (Inl e, s')
      | (Inr (Some r), s') \<Rightarrow> Some (Inr r, s')
      | (Inr None, self, w) \<Rightarrow>
          (case time_sleep env sleep_time of
             Some e \<Rightarrow> Some (Inl e, self, w)
           | None \<Rightarrow> await_result env sleep_time (self, w\<lparr>sleeps := sleeps w @ [sleep_time]\<rparr>)))"

definition report_bad :: "('t, 'f) env \<Rightarrow> captcha \<times> 't world \<Rightarrow> unit result \<times> captcha \<times> 't world" where
  "report_bad env s =
     rewrite_http_to_com_err
       (case s of (self, w) \<Rightarrow>
          if cached_result self = None
          then (Inl (Raised [ValueError] ''tried reporting bad state for captcha not yet retrieved''), self, w)
          else if reported_bad self
          then (Inl (Raised [ValueError] ''tried double-reporting bad captcha''), self, w)
          else (case get env (api self) RES_URL [(''action'', ''reportbad''), (''id'', captcha_id self)] w of
                  (Inl e, w') \<Rightarrow> (Inl e, self, w')
                | (Inr body, w') \<Rightarrow>
                    if body \<noteq> ''OK_REPORT_RECORDED''
                    then (Inl (ResponseFormatError ''unexpected API response''), self, w')
                    else (Inr (), self, w')))"

text \<open>The poll that \<^verbatim>\<open>try_get_result\<close> sends, with the key \<^verbatim>\<open>get\<close> adds.\<close>

abbreviation poll_request :: "captcha \<Rightarrow> request" where
  "poll_request self \<equiv>
     GET RES_URL [(''action'', ''get''), (''id'', captcha_id self), (''key'', api_key (api self))]"

text \<open>The report that \<^verbatim>\<open>report_bad\<close> sends.\<close>

abbreviation report_request :: "captcha \<Rightarrow> request" where
  "report_request self \<equiv>
     GET RES_URL [(''action'', ''reportbad''), (''id'', captcha_id self), (''key'', api_key (api self))]"

text \<open>The submission that \<^verbatim>\<open>solve\<close> posts, with the key \<^verbatim>\<open>post\<close> adds.\<close>

abbreviation submit_request :: "azcaptcha_api \<Rightarrow> pydict option \<Rightarrow> string \<Rightarrow> bytes \<Rightarrow> request" where
  "submit_request self captcha_parameters file_ext raw_data \<equiv>
     POST REQ_URL
       (AList.update ''key'' (api_key self)
          (case captcha_parameters of
             None \<Rightarrow> [(''method'', ''post'')]
           | Some d \<Rightarrow> if d = [] then [(''method'', ''post'')] else d))
       (''file'', ''captcha.'' @ file_ext, raw_data)"

text \<open>The query that \<^verbatim>\<open>get_balance\<close> sends.\<close>

abbreviation balance_request :: "azcaptcha_api \<Rightarrow> request" where
  "balance_request self \<equiv> GET RES_URL [(''action'', ''getbalance''), (''key'', api_key self)]"

section \<open>The builtin \<^verbatim>\<open>float\<close> on a string\<close>

text \<open>
  \<open>python_float\<close> is \<^verbatim>\<open>float(s)\<close> for a \<^verbatim>\<open>str\<close> as CPython 3 (3.6 and later) computes
  it, \<open>None\<close> where it raises \<^verbatim>\<open>ValueError\<close>. A \<open>char\<close> is a code point below 256.
  The steps are those of \<^verbatim>\<open>PyFloat_FromString\<close>:
  \<^item> in a string with a code point from 128, the spaces from 127 on (U+0085, U+00A0)
    become a blank and every other code point from 127 on becomes \<^verbatim>\<open>?\<close>, which no
    later step accepts;
  \<^item> an underscore must stand between two digits, and is then dropped;
  \<^item> the whitespace of C (codes 9 to 13, and 32) is stripped at both ends;
  \<^item> an optional sign and \<^verbatim>\<open>inf\<close>, \<^verbatim>\<open>infinity\<close> or \<^verbatim>\<open>nan\<close>, in any letter case;
  \<^item> otherwise an optional sign, digits with an optional point (at least one digit),
    and an optional exponent, which is read only when it has a digit;
  \<^item> the whole string must have been read.
  \<open>Finite negate v\<close> is the binary64 number with sign bit \<open>negate\<close> and absolute value
  \<open>v\<close>; \<open>round64 negate n d\<close> is the binary64 number nearest to \<open>n / d\<close>, ties to the
  even significand, an infinity from \<open>2 ^ 1024\<close> on.
\<close>

datatype pyfloat = Finite bool rat | Infinite bool | NaN

definition is_digit :: "char \<Rightarrow> bool" where
  "is_digit c = (48 \<le> (of_char c :: nat) \<and> (of_char c :: nat) \<le> 57)"

definition c_isspace :: "char \<Rightarrow> bool" where
  "c_isspace c = ((9 \<le> (of_char c :: nat) \<and> (of_char c :: nat) \<le> 13) \<or> (of_char c :: nat) = 32)"

definition unicode_isspace :: "char \<Rightarrow> bool" where
  "unicode_isspace c = ((of_char c :: nat) = 133 \<or> (of_char c :: nat) = 160)"

definition lower_code :: "char \<Rightarrow> nat" where
  "lower_code c = (if 65 \<le> (of_char c :: nat) \<and> (of_char c :: nat) \<le> 90 then of_char c + 32 else of_char c)"

definition transform_decimal_and_space :: "string \<Rightarrow> string" where
  "transform_decimal_and_space s =
     (if list_all (\<lambda>c. (of_char c :: nat) < 128) s then s
      else map (\<lambda>c. if (of_char c :: nat) < 127 then c
                      else if unicode_isspace c then CHR '' '' else CHR ''?'') s)"

fun underscores_ok :: "char \<Rightarrow> string \<Rightarrow> bool" where
  "underscores_ok prev [] = (prev \<noteq> CHR ''_'')"
| "underscores_ok prev (c # cs) =
     ((if c = CHR ''_'' then is_digit prev
       else if prev = CHR ''_'' then is_digit c else True) \<and> underscores_ok c cs)"

definition strip_sign :: "string \<Rightarrow> bool \<times> string" where
  "strip_sign s =
     (case s of
        [] \<Rightarrow> (False, [])
      | c # cs \<Rightarrow> if c = CHR ''-'' then (True, cs) else if c = CHR ''+'' then (False, cs) else (False, s))"

definition parse_inf_or_nan :: "string \<Rightarrow> (pyfloat \<times> string) option" where
  "parse_inf_or_nan s =
     (case strip_sign s of (negate, r) \<Rightarrow>
        if map lower_code (take 3 r) = map of_char ''inf''
        then (if map lower_code (take 5 (drop 3 r)) = map of_char ''inity''
              then Some (Infinite negate, drop 8 r)
              else Some (Infinite negate, drop 3 r))
        else if map lower_code (take 3 r) = map of_char ''nan'' then Some (NaN, drop 3 r)
        else None)"

definition digits_value :: "string \<Rightarrow> nat" where
  "digits_value ds = foldl (\<lambda>v c. 10 * v + ((of_char c :: nat) - 48)) 0 ds"

fun bit_length :: "nat \<Rightarrow> nat" where
  "bit_length n = (if n = 0 then 0 else Suc (bit_length (n div 2)))"

definition floor_log2 :: "nat \<Rightarrow> nat \<Rightarrow> int" where
  "floor_log2 n d =
     (if d \<le> n then int (bit_length (n div d)) - 1
      else - int (bit_length ((d + n - 1) div n - 1)))"

definition round_half_even :: "nat \<Rightarrow> nat \<Rightarrow> nat" where
  "round_half_even n d =
     (if 2 * (n mod d) < d then n div d
      else if d < 2 * (n mod d) then n div d + 1
      else if even (n div d) then n div d else n div d + 1)"

definition pow_int :: "rat \<Rightarrow> int \<Rightarrow> rat" where
  "pow_int b k = (if 0 \<le> k then b ^ nat k else 1 / b ^ nat (- k))"

definition round64 :: "bool \<Rightarrow> nat \<Rightarrow> nat \<Rightarrow> pyfloat" where
  "round64 negate n d =
     (if n = 0 then Finite negate 0
      else let e = max (floor_log2 n d) (- 1022);
               m = (if e \<le> 52 then round_half_even (n * 2 ^ nat (52 - e)) d
                    else round_half_even n (d * 2 ^ nat (e - 52)));
               v = of_nat m * pow_int 2 (e - 52)
           in if 2 ^ 1024 \<le> v then Infinite negate else Finite negate v)"

definition strtod :: "string \<Rightarrow> pyfloat option" where
  "strtod s =
     (case strip_sign s of (negate, r) \<Rightarrow>
        let ip = takeWhile is_digit r;
            r1 = dropWhile is_digit r;
            has_point = (r1 \<noteq> [] \<and> hd r1 = CHR ''.'');
            fp = (if has_point then takeWhile is_digit (tl r1) else []);
            r2 = (if has_point then dropWhile is_digit (tl r1) else r1)
        in if ip = [] \<and> fp = [] then None
           else if 1000000000 < length (dropWhile (\<lambda>c. c = CHR ''0'') (ip @ fp)) \<or>
                   1000000000 < length fp then None
           else
             (case (if r2 \<noteq> [] \<and> (hd r2 = CHR ''e'' \<or> hd r2 = CHR ''E'')
                    then (case strip_sign (tl r2) of (esign, r3) \<Rightarrow>
                            let ed = takeWhile is_digit r3;
                                abs_exp = (if 9 < length (dropWhile (\<lambda>c. c = CHR ''0'') ed) \<or>
                                              1100000000 < digits_value ed
                                           then 1100000000 else digits_value ed)
                            in if ed = [] then (0, r2)
                               else (if esign then - int abs_exp else int abs_exp, dropWhile is_digit r3))
                    else (0, r2)) of
                (e, rest) \<Rightarrow>
                  if rest \<noteq> [] then None
                  else if int (length fp) \<le> e
                  then Some (round64 negate (digits_value (ip @ fp) * 10 ^ nat (e - int (length fp))) 1)
                  else Some (round64 negate (digits_value (ip @ fp)) (10 ^ nat (int (length fp) - e)))))"

definition python_float :: "string \<Rightarrow> pyfloat option" where
  "python_float s =
     (let s1 = transform_decimal_and_space s
      in if \<not> underscores_ok (CHR 0x00) s1 then None
         else let s3 = dropWhile c_isspace (filter (\<lambda>c. c \<noteq> CHR ''_'') s1)
              in if s3 = [] then None
                 else let s4 = rev (dropWhile c_isspace (rev s3))
                      in (case parse_inf_or_nan s4 of
                            Some (v, rest) \<Rightarrow> if rest = [] then Some v else None
                          | None \<Rightarrow> strtod s4))"

section \<open>Test doubles\<close>

text \<open>
  Concrete collaborators for running the model on examples. \<open>stub_unescape\<close> decodes
  \<^verbatim>\<open>&amp;\<close> and \<^verbatim>\<open>&#124;\<close> as \<^verbatim>\<open>html.unescape\<close> does and leaves every other
  character alone; \<open>stub_env send\<close> has \<open>python_float\<close> for \<^verbatim>\<open>float\<close>, recognises a
  PNG header, has no files, and sleeps for any non-negative time. The transport
  \<open>send\<close> is chosen by each example.
\<close>

fun stub_unescape :: "string \<Rightarrow> string" where
  "stub_unescape [] = []"
| "stub_unescape (x # xs) =
     (if take 5 (x # xs) = ''&amp;'' then CHR ''&'' # stub_unescape (drop 4 xs)
      else if take 6 (x # xs) = ''&#124;'' then CHR ''|'' # stub_unescape (drop 5 xs)
      else x # stub_unescape xs)"

definition stub_env :: "(nat \<Rightarrow> request \<Rightarrow> string result) \<Rightarrow> (rat, pyfloat) env" where
  "stub_env send =
     \<lparr>requests_send = send,
      unescape = stub_unescape,
      py_float = python_float,
      imghdr_what = (\<lambda>h. if take 8 h = [0x89, 0x50, 0x4E, 0x47, 0x0D, 0x0A, 0x1A, 0x0A]
                          then Some ''png'' else None),
      read_path = (\<lambda>p. Inl (Raised [OSError] ''No such file or directory'')),
      time_sleep = (\<lambda>t. if t < 0 then Some (Raised [ValueError] ''sleep length must be non-negative'')
                         else None)\<rparr>"

text \<open>
  A transport that answers a not-ready sentinel to the first \<open>n\<close> calls (the two
  spellings in turn) and \<open>body\<close> from then on.
\<close>

definition stub_send_after :: "nat \<Rightarrow> string \<Rightarrow> nat \<Rightarrow> request \<Rightarrow> string result" where
  "stub_send_after n body k r =
     (if k < n then (if even k then Inr ''CAPCHA_NOT_READY'' else Inr ''CAPTCHA_NOT_READY'')
      else Inr body)"

text \<open>A transport that answers the scripted bodies in turn and refuses every later call.\<close>

definition stub_send_script :: "string list \<Rightarrow> nat \<Rightarrow> request \<Rightarrow> string result" where
  "stub_send_script bodies k r =
     (if k < length bodies then Inr (bodies ! k)
      else Inl (Raised [RequestException] ''connection refused''))"

definition png_bytes :: bytes where
  "png_bytes = [0x89, 0x50, 0x4E, 0x47, 0x0D, 0x0A, 0x1A, 0x0A, 0x00]"

definition world0 :: "rat world" where
  "world0 = \<lparr>calls = [], sleeps = []\<rparr>"

section \<open>Properties\<close>

subsection \<open>Helpers\<close>

lemma get_simp:
  "get env self url params w =
     (requests_send env (length (calls w)) (GET url (AList.update ''key'' (api_key self) params)),
      w\<lparr>calls := calls w @ [GET url (AList.update ''key'' (api_key self) params)]\<rparr>)"
  by (simp add: get_def Let_def)

lemma unpack2_cases:
  "unpack2 ps = (case ps of [a, b] \<Rightarrow> Inr (a, b)
     | [] \<Rightarrow> Inl (Raised [ValueError] ''not enough values to unpack'')
     | [a] \<Rightarrow> Inl (Raised [ValueError] ''not enough values to unpack'')
     | _ \<Rightarrow> Inl (Raised [ValueError] ''too many values to unpack''))"
  by (cases ps rule: unpack2.cases) simp_all

text \<open>
  One poll of a ticket without a cached result, when the transport returns a body:
  the three branches of \<^verbatim>\<open>try_get_result\<close> after the call.
\<close>

lemma try_get_result_poll:
  assumes "cached_result self = None"
    and "requests_send env (length (calls w)) (poll_request self) = Inr body"
  shows "try_get_result env (self, w) =
     (if CHR ''|'' \<in> set body
      then (case str_split (CHR ''|'') (unescape env body) of
              [u, captcha_text] \<Rightarrow>
                (Inr (Some captcha_text), self\<lparr>cached_result := Some captcha_text\<rparr>,
                 w\<lparr>calls := calls w @ [poll_request self]\<rparr>)
            | _ \<Rightarrow> (Inl (ResponseFormatError ''unexpected response format''), self,
                 w\<lparr>calls := calls w @ [poll_request self]\<rparr>))
      else if body = ''CAPCHA_NOT_READY'' \<or> body = ''CAPTCHA_NOT_READY''
      then (Inr None, self, w\<lparr>calls := calls w @ [poll_request self]\<rparr>)
      else (Inl (OperationFailedError body), self, w\<lparr>calls := calls w @ [poll_request self]\<rparr>))"
  using assms
  by (simp add: try_get_result_def get_simp rewrite_http_to_com_err_def rewrite_to_format_err_def
      unpack2_cases split: list.splits)

subsection \<open>The memoised result\<close>

text \<open>
  C2. A ticket whose result is cached answers \<^verbatim>\<open>try_get_result\<close> with the cached
  string and leaves the ticket and the world as they were, so no HTTP call is made;
  after any number of further calls the state is still the same and the answer is
  still the cached string.
\<close>

theorem try_get_result_cached:
  assumes "cached_result self = Some r"
  shows "try_get_result env (self, w) = (Inr (Some r), self, w) \<and>
         (\<forall>n. ((\<lambda>s. snd (try_get_result env s)) ^^ n) (self, w) = (self, w) \<and>
              fst (try_get_result env (((\<lambda>s. snd (try_get_result env s)) ^^ n) (self, w)))
                = Inr (Some r))"
proof -
  have one: "try_get_result env (self, w) = (Inr (Some r), self, w)"
    using assms
    by (simp add: try_get_result_def rewrite_http_to_com_err_def rewrite_to_format_err_def)
  have rep: "((\<lambda>s. snd (try_get_result env s)) ^^ n) (self, w) = (self, w)" for n
    by (induction n) (simp_all add: one)
  show ?thesis using one rep by simp
qed

theorem try_get_result_cached_witness:
  "cached_result ((Captcha \<lparr>api_key = ''k''\<rparr> ''7'')\<lparr>cached_result := Some ''abc''\<rparr>) = Some ''abc'' \<and>
   try_get_result (stub_env (\<lambda>k r. Inr ''OK|zzz''))
     ((Captcha \<lparr>api_key = ''k''\<rparr> ''7'')\<lparr>cached_result := Some ''abc''\<rparr>, world0)
   = (Inr (Some ''abc''), (Captcha \<lparr>api_key = ''k''\<rparr> ''7'')\<lparr>cached_result := Some ''abc''\<rparr>, world0) \<and>
   calls (snd (((\<lambda>s. snd (try_get_result (stub_env (\<lambda>k r. Inr ''OK|zzz'')) s)) ^^ 3)
     ((Captcha \<lparr>api_key = ''k''\<rparr> ''7'')\<lparr>cached_result := Some ''abc''\<rparr>, world0))) = []"
proof -
  have h: "cached_result ((Captcha \<lparr>api_key = ''k''\<rparr> ''7'')\<lparr>cached_result := Some ''abc''\<rparr>) = Some ''abc''"
    by simp
  show ?thesis
    using h try_get_result_cached [OF h, of "stub_env (\<lambda>k r. Inr ''OK|zzz'')" world0]
    by (simp add: world0_def)
qed

subsection \<open>Polling\<close>

text \<open>\<^verbatim>\<open>split\<close> by the shape of the string: one part more than separators.\<close>

lemma str_split_nonempty: "str_split sep s \<noteq> []"
  by (induction s) (auto split: list.splits)

lemma str_split_length: "length (str_split sep s) = Suc (count_list s sep)"
  by (induction s) (auto simp: str_split_nonempty split: list.splits)

lemma str_split_without: "sep \<notin> set s \<Longrightarrow> str_split sep s = [s]"
  by (induction s) auto

lemma str_split_once:
  "sep \<notin> set a \<Longrightarrow> sep \<notin> set b \<Longrightarrow> str_split sep (a @ sep # b) = [a, b]"
  by (induction a) (auto simp: str_split_without)

lemma str_split_not_two:
  assumes "count_list s sep \<noteq> 1"
  shows "(case str_split sep s of [u, v] \<Rightarrow> x u v | _ \<Rightarrow> y) = y"
proof -
  have "length (str_split sep s) \<noteq> 2"
    using assms by (simp add: str_split_length)
  then show ?thesis
    by (auto split: list.splits)
qed

text \<open>
  C3. A poll of a ticket without a cached result whose response body, as received,
  contains \<^verbatim>\<open>|\<close>: the body is decoded by \<^verbatim>\<open>unescape\<close> and the decoded text is split
  at \<^verbatim>\<open>|\<close>. A decoded text with exactly one \<^verbatim>\<open>|\<close> has two parts: the second is
  returned and cached. A decoded text with any other number of \<^verbatim>\<open>|\<close> raises
  \<^verbatim>\<open>ResponseFormatError\<close>, and nothing is cached. In particular, with a decoder
  that turns \<^verbatim>\<open>OK|5&amp;6\<close> into \<^verbatim>\<open>OK|5&6\<close>, that body caches \<^verbatim>\<open>5&6\<close>.
\<close>

theorem try_get_result_pipe:
  assumes "cached_result self = None"
    and "requests_send env (length (calls w)) (poll_request self) = Inr body"
    and "CHR ''|'' \<in> set body"
  shows "(\<forall>a b. unescape env body = a @ ''|'' @ b \<and> CHR ''|'' \<notin> set a \<and> CHR ''|'' \<notin> set b \<longrightarrow>
            try_get_result env (self, w) =
              (Inr (Some b), self\<lparr>cached_result := Some b\<rparr>,
               w\<lparr>calls := calls w @ [poll_request self]\<rparr>)) \<and>
         (count_list (unescape env body) (CHR ''|'') \<noteq> 1 \<longrightarrow>
            try_get_result env (self, w) =
              (Inl (ResponseFormatError ''unexpected response format''), self,
               w\<lparr>calls := calls w @ [poll_request self]\<rparr>)) \<and>
         (body = ''OK|5&amp;6'' \<and> unescape env body = ''OK|5&6'' \<longrightarrow>
            try_get_result env (self, w) =
              (Inr (Some ''5&6''), self\<lparr>cached_result := Some ''5&6''\<rparr>,
               w\<lparr>calls := calls w @ [poll_request self]\<rparr>))"
proof -
  have gen: "try_get_result env (self, w) =
     (case str_split (CHR ''|'') (unescape env body) of
        [u, captcha_text] \<Rightarrow>
          (Inr (Some captcha_text), self\<lparr>cached_result := Some captcha_text\<rparr>,
           w\<lparr>calls := calls w @ [poll_request self]\<rparr>)
      | _ \<Rightarrow> (Inl (ResponseFormatError ''unexpected response format''), self,
           w\<lparr>calls := calls w @ [poll_request self]\<rparr>))"
    using try_get_result_poll [OF assms(1,2)] assms(3) by simp
  have two: "try_get_result env (self, w) =
          (Inr (Some b), self\<lparr>cached_result := Some b\<rparr>,
           w\<lparr>calls := calls w @ [poll_request self]\<rparr>)"
    if "unescape env body = a @ ''|'' @ b" "CHR ''|'' \<notin> set a" "CHR ''|'' \<notin> set b" for a b
  proof -
    have "str_split (CHR ''|'') (unescape env body) = [a, b]"
      using that by (simp add: str_split_once)
    then show ?thesis using gen by simp
  qed
  have other: "try_get_result env (self, w) =
          (Inl (ResponseFormatError ''unexpected response format''), self,
           w\<lparr>calls := calls w @ [poll_request self]\<rparr>)"
    if "count_list (unescape env body) (CHR ''|'') \<noteq> 1"
    using gen by (simp only: str_split_not_two [OF that])
  have amp: "try_get_result env (self, w) =
          (Inr (Some ''5&6''), self\<lparr>cached_result := Some ''5&6''\<rparr>,
           w\<lparr>calls := calls w @ [poll_request self]\<rparr>)"
    if "unescape env body = ''OK|5&6''"
    by (rule two [of "''OK''" "''5&6''"]) (simp_all add: that)
  show ?thesis using two other amp by blast
qed

theorem try_get_result_pipe_witness:
  "cached_result (Captcha \<lparr>api_key = ''k''\<rparr> ''7'') = None \<and>
   CHR ''|'' \<in> set ''OK|5&amp;6'' \<and>
   unescape (stub_env (\<lambda>k r. Inr ''OK|5&amp;6'')) ''OK|5&amp;6'' = ''OK|5&6'' \<and>
   try_get_result (stub_env (\<lambda>k r. Inr ''OK|5&amp;6'')) (Captcha \<lparr>api_key = ''k''\<rparr> ''7'', world0) =
     (Inr (Some ''5&6''), (Captcha \<lparr>api_key = ''k''\<rparr> ''7'')\<lparr>cached_result := Some ''5&6''\<rparr>,
      world0\<lparr>calls := [GET ''http://azcaptcha.com/res.php''
                          [(''action'', ''get''), (''id'', ''7''), (''key'', ''k'')]]\<rparr>) \<and>
   CHR ''|'' \<in> set ''OK|a|b'' \<and>
   count_list (unescape (stub_env (\<lambda>k r. Inr ''OK|a|b'')) ''OK|a|b'') (CHR ''|'') = 2 \<and>
   try_get_result (stub_env (\<lambda>k r. Inr ''OK|a|b'')) (Captcha \<lparr>api_key = ''k''\<rparr> ''7'', world0) =
     (Inl (ResponseFormatError ''unexpected response format''), Captcha \<lparr>api_key = ''k''\<rparr> ''7'',
      world0\<lparr>calls := [GET ''http://azcaptcha.com/res.php''
                          [(''action'', ''get''), (''id'', ''7''), (''key'', ''k'')]]\<rparr>)"
proof -
  let ?c = "Captcha \<lparr>api_key = ''k''\<rparr> ''7''"
  let ?env = "stub_env (\<lambda>k r. Inr ''OK|5&amp;6'')"
  let ?env' = "stub_env (\<lambda>k r. Inr ''OK|a|b'')"
  have h1: "cached_result ?c = None"
    by (simp add: Captcha_def)
  have h2: "requests_send ?env (length (calls world0)) (poll_request ?c) = Inr ''OK|5&amp;6''"
    by (simp add: stub_env_def)
  have h3: "CHR ''|'' \<in> set ''OK|5&amp;6''" by simp
  have h4: "unescape ?env ''OK|5&amp;6'' = ''OK|5&6''"
    by (simp add: stub_env_def)
  have g2: "requests_send ?env' (length (calls world0)) (poll_request ?c) = Inr ''OK|a|b''"
    by (simp add: stub_env_def)
  have g3: "CHR ''|'' \<in> set ''OK|a|b''" by simp
  have g4: "count_list (unescape ?env' ''OK|a|b'') (CHR ''|'') = 2"
    by (simp add: stub_env_def)
  have A: "try_get_result ?env (?c, world0) =
     (Inr (Some ''5&6''), ?c\<lparr>cached_result := Some ''5&6''\<rparr>,
      world0\<lparr>calls := calls world0 @ [poll_request ?c]\<rparr>)"
    using try_get_result_pipe [OF h1 h2 h3] h4 by blast
  have B: "try_get_result ?env' (?c, world0) =
     (Inl (ResponseFormatError ''unexpected response format''), ?c,
      world0\<lparr>calls := calls world0 @ [poll_request ?c]\<rparr>)"
    using try_get_result_pipe [OF h1 g2 g3] g4 by simp
  show ?thesis
    using h1 h3 h4 g3 g4
    by (simp only: A B) (simp add: Captcha_def world0_def RES_URL_def BASE_URL_def)
qed

text \<open>
  C3, where decoding comes first. The test for \<^verbatim>\<open>|\<close> is made on the body as
  received, before any decoding. The
  body \<^verbatim>\<open>OK&#124;abc\<close> has no \<^verbatim>\<open>|\<close>; decoded it is \<^verbatim>\<open>OK|abc\<close>, which splits into
  exactly two parts. \<^verbatim>\<open>try_get_result\<close> does not decode it: it raises
  \<^verbatim>\<open>OperationFailedError\<close> and caches nothing.
\<close>

theorem try_get_result_decoded_bar_counterexample:
  "unescape (stub_env (\<lambda>k r. Inr ''OK&#124;abc'')) ''OK&#124;abc'' = ''OK|abc'' \<and>
   CHR ''|'' \<in> set (unescape (stub_env (\<lambda>k r. Inr ''OK&#124;abc'')) ''OK&#124;abc'') \<and>
   try_get_result (stub_env (\<lambda>k r. Inr ''OK&#124;abc'')) (Captcha \<lparr>api_key = ''k''\<rparr> ''7'', world0) =
     (Inl (OperationFailedError ''OK&#124;abc''), Captcha \<lparr>api_key = ''k''\<rparr> ''7'',
      world0\<lparr>calls := [GET ''http://azcaptcha.com/res.php''
                          [(''action'', ''get''), (''id'', ''7''), (''key'', ''k'')]]\<rparr>) \<and>
   fst (try_get_result (stub_env (\<lambda>k r. Inr ''OK&#124;abc'')) (Captcha \<lparr>api_key = ''k''\<rparr> ''7'', world0))
     \<noteq> Inr (Some ''abc'')"
proof -
  let ?c = "Captcha \<lparr>api_key = ''k''\<rparr> ''7''"
  let ?env = "stub_env (\<lambda>k r. Inr ''OK&#124;abc'')"
  have u: "unescape ?env ''OK&#124;abc'' = ''OK|abc''"
    by (simp add: stub_env_def)
  have r: "try_get_result ?env (?c, world0) =
     (Inl (OperationFailedError ''OK&#124;abc''), ?c,
      world0\<lparr>calls := calls world0 @ [poll_request ?c]\<rparr>)"
    by (subst try_get_result_poll [where body = "''OK&#124;abc''"])
       (simp_all add: Captcha_def stub_env_def)
  show ?thesis
    by (simp only: u r) (simp add: Captcha_def world0_def RES_URL_def BASE_URL_def)
qed

text \<open>
  C4. A poll of a ticket without a cached result whose response body has no
  \<^verbatim>\<open>|\<close>: if the body is \<^verbatim>\<open>CAPCHA_NOT_READY\<close> or \<^verbatim>\<open>CAPTCHA_NOT_READY\<close>, the
  answer is \<^verbatim>\<open>None\<close> and the ticket is unchanged, the same for both spellings; any
  other body raises \<^verbatim>\<open>OperationFailedError\<close> built from the body as received. In
  both cases exactly one HTTP call was made.
\<close>

theorem try_get_result_no_pipe:
  assumes "cached_result self = None"
    and "requests_send env (length (calls w)) (poll_request self) = Inr body"
    and "CHR ''|'' \<notin> set body"
  shows "try_get_result env (self, w) =
     (if body = ''CAPCHA_NOT_READY'' \<or> body = ''CAPTCHA_NOT_READY''
      then (Inr None, self, w\<lparr>calls := calls w @ [poll_request self]\<rparr>)
      else (Inl (OperationFailedError body), self, w\<lparr>calls := calls w @ [poll_request self]\<rparr>))"
  using try_get_result_poll [OF assms(1,2)] assms(3) by simp

theorem try_get_result_no_pipe_witness:
  "cached_result (Captcha \<lparr>api_key = ''k''\<rparr> ''7'') = None \<and>
   CHR ''|'' \<notin> set ''CAPCHA_NOT_READY'' \<and>
   try_get_result (stub_env (\<lambda>k r. Inr ''CAPCHA_NOT_READY'')) (Captcha \<lparr>api_key = ''k''\<rparr> ''7'', world0) =
     (Inr None, Captcha \<lparr>api_key = ''k''\<rparr> ''7'',
      world0\<lparr>calls := [GET ''http://azcaptcha.com/res.php''
                          [(''action'', ''get''), (''id'', ''7''), (''key'', ''k'')]]\<rparr>) \<and>
   CHR ''|'' \<notin> set ''ERROR_WRONG_CAPTCHA_ID'' \<and>
   try_get_result (stub_env (\<lambda>k r. Inr ''ERROR_WRONG_CAPTCHA_ID'')) (Captcha \<lparr>api_key = ''k''\<rparr> ''7'', world0) =
     (Inl (OperationFailedError ''ERROR_WRONG_CAPTCHA_ID''), Captcha \<lparr>api_key = ''k''\<rparr> ''7'',
      world0\<lparr>calls := [GET ''http://azcaptcha.com/res.php''
                          [(''action'', ''get''), (''id'', ''7''), (''key'', ''k'')]]\<rparr>)"
proof -
  have h1: "cached_result (Captcha \<lparr>api_key = ''k''\<rparr> ''7'') = None"
    by (simp add: Captcha_def)
  have a2: "requests_send (stub_env (\<lambda>k r. Inr ''CAPCHA_NOT_READY'')) (length (calls world0))
              (poll_request (Captcha \<lparr>api_key = ''k''\<rparr> ''7'')) = Inr ''CAPCHA_NOT_READY''"
    by (simp add: stub_env_def)
  have a3: "CHR ''|'' \<notin> set ''CAPCHA_NOT_READY''" by simp
  have b2: "requests_send (stub_env (\<lambda>k r. Inr ''ERROR_WRONG_CAPTCHA_ID'')) (length (calls world0))
              (poll_request (Captcha \<lparr>api_key = ''k''\<rparr> ''7'')) = Inr ''ERROR_WRONG_CAPTCHA_ID''"
    by (simp add: stub_env_def)
  have b3: "CHR ''|'' \<notin> set ''ERROR_WRONG_CAPTCHA_ID''" by simp
  show ?thesis
    using h1 a3 b3 try_get_result_no_pipe [OF h1 a2 a3] try_get_result_no_pipe [OF h1 b2 b3]
    by (simp add: Captcha_def world0_def RES_URL_def BASE_URL_def)
qed

subsection \<open>Waiting\<close>

text \<open>
  While the transport answers a not-ready sentinel, \<^verbatim>\<open>await_result\<close> polls, sleeps
  and goes round again: after \<open>N\<close> such rounds it is where it would be had it started
  with \<open>N\<close> more polls and \<open>N\<close> more sleeps in the log.
\<close>

lemma try_get_result_not_ready:
  assumes "cached_result self = None"
    and "requests_send env (length (calls w)) (poll_request self) = Inr body"
    and "body = ''CAPCHA_NOT_READY'' \<or> body = ''CAPTCHA_NOT_READY''"
  shows "try_get_result env (self, w) = (Inr None, self, w\<lparr>calls := calls w @ [poll_request self]\<rparr>)"
proof -
  have "CHR ''|'' \<notin> set body" using assms(3) by auto
  then show ?thesis using try_get_result_poll [OF assms(1,2)] assms(3) by simp
qed

lemma await_result_not_ready_rounds:
  assumes "cached_result self = None"
    and "0 < N \<Longrightarrow> time_sleep env t = None"
    and "\<forall>k<N. requests_send env (length (calls w) + k) (poll_request self) = Inr ''CAPCHA_NOT_READY'' \<or>
               requests_send env (length (calls w) + k) (poll_request self) = Inr ''CAPTCHA_NOT_READY''"
  shows "await_result env t (self, w) =
         await_result env t (self, w\<lparr>calls := calls w @ replicate N (poll_request self),
                                      sleeps := sleeps w @ replicate N t\<rparr>)"
  using assms(2,3)
proof (induction N arbitrary: w)
  case 0
  then show ?case by simp
next
  case (Suc N)
  have sl: "time_sleep env t = None" using Suc.prems(1) by simp
  have first: "requests_send env (length (calls w)) (poll_request self) = Inr ''CAPCHA_NOT_READY'' \<or>
      requests_send env (length (calls w)) (poll_request self) = Inr ''CAPTCHA_NOT_READY''"
    using Suc.prems(2) [rule_format, of 0] by simp
  then obtain body where b: "requests_send env (length (calls w)) (poll_request self) = Inr body"
    and b': "body = ''CAPCHA_NOT_READY'' \<or> body = ''CAPTCHA_NOT_READY''" by blast
  define w1 where "w1 = w\<lparr>calls := calls w @ [poll_request self], sleeps := sleeps w @ [t]\<rparr>"
  have len: "length (calls w1) = Suc (length (calls w))" by (simp add: w1_def)
  have step: "await_result env t (self, w) = await_result env t (self, w1)"
    unfolding w1_def
    by (subst await_result.simps) (simp add: try_get_result_not_ready [OF assms(1) b b'] sl)
  have rest: "\<forall>k<N. requests_send env (length (calls w1) + k) (poll_request self) = Inr ''CAPCHA_NOT_READY'' \<or>
               requests_send env (length (calls w1) + k) (poll_request self) = Inr ''CAPTCHA_NOT_READY''"
  proof (intro allI impI)
    fix k assume "k < N"
    then have "Suc k < Suc N" by simp
    from Suc.prems(2) [rule_format, OF this]
    show "requests_send env (length (calls w1) + k) (poll_request self) = Inr ''CAPCHA_NOT_READY'' \<or>
               requests_send env (length (calls w1) + k) (poll_request self) = Inr ''CAPTCHA_NOT_READY''"
      by (simp only: len add_Suc add_Suc_right)
  qed
  have ih: "await_result env t (self, w1) =
        await_result env t (self, w1\<lparr>calls := calls w1 @ replicate N (poll_request self),
                                      sleeps := sleeps w1 @ replicate N t\<rparr>)"
    by (rule Suc.IH [OF _ rest]) (rule sl)
  have eq: "w1\<lparr>calls := calls w1 @ replicate N (poll_request self), sleeps := sleeps w1 @ replicate N t\<rparr>
          = w\<lparr>calls := calls w @ replicate (Suc N) (poll_request self), sleeps := sleeps w @ replicate (Suc N) t\<rparr>"
    by (simp add: w1_def)
  show ?case using step ih by (simp only: eq)
qed

text \<open>
  C5. Against a transport that answers a not-ready sentinel \<open>N\<close> times and then
  \<^verbatim>\<open>OK|secret\<close>, \<^verbatim>\<open>await_result\<close> returns \<^verbatim>\<open>secret\<close>, having made exactly
  \<open>N + 1\<close> polls and \<open>N\<close> sleeps of \<open>sleep_time\<close>. If instead the poll after the
  \<open>N\<close> not-ready rounds makes \<^verbatim>\<open>try_get_result\<close> raise \<open>e\<close>, \<^verbatim>\<open>await_result\<close>
  raises that same \<open>e\<close> in the state that poll left: no sleep and no further poll
  follow. Here \<^verbatim>\<open>html.unescape\<close> leaves \<^verbatim>\<open>OK|secret\<close> as it is, and
  \<^verbatim>\<open>time.sleep\<close> accepts \<open>sleep_time\<close> whenever a sleep is needed.
\<close>

theorem await_result_polls:
  assumes "cached_result self = None"
    and "0 < N \<Longrightarrow> time_sleep env t = None"
    and "\<forall>k<N. requests_send env (length (calls w) + k) (poll_request self) = Inr ''CAPCHA_NOT_READY'' \<or>
               requests_send env (length (calls w) + k) (poll_request self) = Inr ''CAPTCHA_NOT_READY''"
  shows "(requests_send env (length (calls w) + N) (poll_request self) = Inr ''OK|secret'' \<and>
          unescape env ''OK|secret'' = ''OK|secret'' \<longrightarrow>
            await_result env t (self, w) =
              Some (Inr ''secret'', self\<lparr>cached_result := Some ''secret''\<rparr>,
                    w\<lparr>calls := calls w @ replicate (Suc N) (poll_request self),
                      sleeps := sleeps w @ replicate N t\<rparr>)) \<and>
         (\<forall>e. fst (try_get_result env (self, w\<lparr>calls := calls w @ replicate N (poll_request self),
                                                sleeps := sleeps w @ replicate N t\<rparr>)) = Inl e \<longrightarrow>
            await_result env t (self, w) =
              Some (Inl e, snd (try_get_result env (self, w\<lparr>calls := calls w @ replicate N (poll_request self),
                                                            sleeps := sleeps w @ replicate N t\<rparr>))))"
proof -
  define wN where "wN = w\<lparr>calls := calls w @ replicate N (poll_request self),
                          sleeps := sleeps w @ replicate N t\<rparr>"
  have rounds: "await_result env t (self, w) = await_result env t (self, wN)"
    unfolding wN_def by (rule await_result_not_ready_rounds [OF assms])
  have len: "length (calls wN) = length (calls w) + N" by (simp add: wN_def)
  have ok: "await_result env t (self, w) =
              Some (Inr ''secret'', self\<lparr>cached_result := Some ''secret''\<rparr>,
                    w\<lparr>calls := calls w @ replicate (Suc N) (poll_request self),
                      sleeps := sleeps w @ replicate N t\<rparr>)"
    if r: "requests_send env (length (calls w) + N) (poll_request self) = Inr ''OK|secret''"
      and u: "unescape env ''OK|secret'' = ''OK|secret''"
  proof -
    have r': "requests_send env (length (calls wN)) (poll_request self) = Inr ''OK|secret''"
      using r by (simp only: len)
    have "try_get_result env (self, wN) =
            (Inr (Some ''secret''), self\<lparr>cached_result := Some ''secret''\<rparr>,
             wN\<lparr>calls := calls wN @ [poll_request self]\<rparr>)"
      using try_get_result_poll [OF assms(1) r'] by (simp add: u)
    then have "await_result env t (self, wN) =
            Some (Inr ''secret'', self\<lparr>cached_result := Some ''secret''\<rparr>,
             wN\<lparr>calls := calls wN @ [poll_request self]\<rparr>)"
      by (subst await_result.simps) simp
    moreover have "wN\<lparr>calls := calls wN @ [poll_request self]\<rparr> =
        w\<lparr>calls := calls w @ replicate (Suc N) (poll_request self), sleeps := sleeps w @ replicate N t\<rparr>"
      by (simp add: wN_def replicate_append_same)
    ultimately show ?thesis using rounds by simp
  qed
  have err: "await_result env t (self, w) = Some (Inl e, snd (try_get_result env (self, wN)))"
    if e: "fst (try_get_result env (self, wN)) = Inl e" for e
  proof -
    obtain s' where "try_get_result env (self, wN) = (Inl e, s')"
      using e by (cases "try_get_result env (self, wN)") simp
    then have "await_result env t (self, wN) = Some (Inl e, snd (try_get_result env (self, wN)))"
      by (subst await_result.simps) simp
    then show ?thesis using rounds by simp
  qed
  show ?thesis using ok err unfolding wN_def by blast
qed

theorem await_result_polls_witness:
  "cached_result (Captcha \<lparr>api_key = ''k''\<rparr> ''7'') = None \<and>
   time_sleep (stub_env (stub_send_after 2 ''OK|secret'')) 1 = None \<and>
   requests_send (stub_env (stub_send_after 2 ''OK|secret'')) 0 (poll_request (Captcha \<lparr>api_key = ''k''\<rparr> ''7''))
     = Inr ''CAPCHA_NOT_READY'' \<and>
   requests_send (stub_env (stub_send_after 2 ''OK|secret'')) 1 (poll_request (Captcha \<lparr>api_key = ''k''\<rparr> ''7''))
     = Inr ''CAPTCHA_NOT_READY'' \<and>
   requests_send (stub_env (stub_send_after 2 ''OK|secret'')) 2 (poll_request (Captcha \<lparr>api_key = ''k''\<rparr> ''7''))
     = Inr ''OK|secret'' \<and>
   await_result (stub_env (stub_send_after 2 ''OK|secret'')) 1 (Captcha \<lparr>api_key = ''k''\<rparr> ''7'', world0) =
     Some (Inr ''secret'', (Captcha \<lparr>api_key = ''k''\<rparr> ''7'')\<lparr>cached_result := Some ''secret''\<rparr>,
           \<lparr>calls = replicate 3 (poll_request (Captcha \<lparr>api_key = ''k''\<rparr> ''7'')), sleeps = [1, 1]\<rparr>) \<and>
   await_result (stub_env (stub_send_after 2 ''ERROR_WRONG_CAPTCHA_ID'')) 1 (Captcha \<lparr>api_key = ''k''\<rparr> ''7'', world0) =
     Some (Inl (OperationFailedError ''ERROR_WRONG_CAPTCHA_ID''), Captcha \<lparr>api_key = ''k''\<rparr> ''7'',
           \<lparr>calls = replicate 3 (poll_request (Captcha \<lparr>api_key = ''k''\<rparr> ''7'')), sleeps = [1, 1]\<rparr>)"
proof -
  let ?c = "Captcha \<lparr>api_key = ''k''\<rparr> ''7''"
  let ?env = "stub_env (stub_send_after 2 ''OK|secret'')"
  let ?env' = "stub_env (stub_send_after 2 ''ERROR_WRONG_CAPTCHA_ID'')"
  have h1: "cached_result ?c = None" by (simp add: Captcha_def)
  have h2: "time_sleep ?env 1 = None" "time_sleep ?env' 1 = None" by (simp_all add: stub_env_def)
  have h3: "\<forall>k<2. requests_send ?env (length (calls world0) + k) (poll_request ?c) = Inr ''CAPCHA_NOT_READY'' \<or>
               requests_send ?env (length (calls world0) + k) (poll_request ?c) = Inr ''CAPTCHA_NOT_READY''"
    by (simp add: stub_env_def stub_send_after_def world0_def)
  have h3': "\<forall>k<2. requests_send ?env' (length (calls world0) + k) (poll_request ?c) = Inr ''CAPCHA_NOT_READY'' \<or>
               requests_send ?env' (length (calls world0) + k) (poll_request ?c) = Inr ''CAPTCHA_NOT_READY''"
    by (simp add: stub_env_def stub_send_after_def world0_def)
  have h4: "requests_send ?env (length (calls world0) + 2) (poll_request ?c) = Inr ''OK|secret''"
    by (simp add: stub_env_def stub_send_after_def world0_def)
  have h5: "unescape ?env ''OK|secret'' = ''OK|secret''" by (simp add: stub_env_def)
  have w2: "world0\<lparr>calls := calls world0 @ replicate 2 (poll_request ?c), sleeps := sleeps world0 @ replicate 2 1\<rparr>
            = \<lparr>calls = replicate 2 (poll_request ?c), sleeps = [1, 1]\<rparr>"
    by (simp add: world0_def numeral_2_eq_2)
  have e: "try_get_result ?env' (?c, \<lparr>calls = replicate 2 (poll_request ?c), sleeps = [1, 1]\<rparr>) =
           (Inl (OperationFailedError ''ERROR_WRONG_CAPTCHA_ID''), ?c,
            \<lparr>calls = replicate 3 (poll_request ?c), sleeps = [1, 1]\<rparr>)"
    by (subst try_get_result_poll [where body = "''ERROR_WRONG_CAPTCHA_ID''"])
       (simp_all add: Captcha_def stub_env_def stub_send_after_def numeral_2_eq_2 numeral_3_eq_3)
  have A: "await_result ?env 1 (?c, world0) =
     Some (Inr ''secret'', ?c\<lparr>cached_result := Some ''secret''\<rparr>,
           \<lparr>calls = replicate 3 (poll_request ?c), sleeps = [1, 1]\<rparr>)"
    using await_result_polls [of ?c 2 ?env 1 world0, OF h1 h2(1) h3] h4 h5
    by (simp add: world0_def numeral_2_eq_2 numeral_3_eq_3)
  have B: "await_result ?env' 1 (?c, world0) =
     Some (Inl (OperationFailedError ''ERROR_WRONG_CAPTCHA_ID''), ?c,
           \<lparr>calls = replicate 3 (poll_request ?c), sleeps = [1, 1]\<rparr>)"
    using await_result_polls [of ?c 2 ?env' 1 world0, OF h1 h2(2) h3'] e
    by (simp only: w2 fst_conv snd_conv)
  show ?thesis using h1 h2 A B by (simp add: stub_env_def stub_send_after_def)
qed

subsection \<open>Submission\<close>

lemma post_simp:
  "post env self url d files w =
     (requests_send env (length (calls w)) (POST url (AList.update ''key'' (api_key self) d) files),
      w\<lparr>calls := calls w @ [POST url (AList.update ''key'' (api_key self) d) files]\<rparr>)"
  by (simp add: post_def Let_def)

lemma str_split_no_sep: "sep \<notin> set s \<Longrightarrow> str_split sep s = [s]"
  by (induction s) auto

lemma solve_submitted:
  assumes "(case file of Path p \<Rightarrow> read_path env p | FileObj r \<Rightarrow> r) = Inr raw_data"
    and "imghdr_what env raw_data = Some file_ext"
    and "requests_send env (length (calls w)) (submit_request self captcha_parameters file_ext raw_data) = Inr body"
  shows "solve env self file captcha_parameters w =
     (if CHR ''|'' \<in> set body
      then (case str_split (CHR ''|'') body of
              [u, cid] \<Rightarrow>
                (Inr (Captcha self cid),
                 w\<lparr>calls := calls w @ [submit_request self captcha_parameters file_ext raw_data]\<rparr>)
            | _ \<Rightarrow> (Inl (ResponseFormatError ''unexpected response format''),
                 w\<lparr>calls := calls w @ [submit_request self captcha_parameters file_ext raw_data]\<rparr>))
      else (Inl (OperationFailedError body),
            w\<lparr>calls := calls w @ [submit_request self captcha_parameters file_ext raw_data]\<rparr>))"
  using assms
  by (simp add: solve_def post_simp rewrite_http_to_com_err_def rewrite_to_format_err_def
      unpack2_cases split: list.splits)

text \<open>
  C6. When the image was read, its format was recognised and the transport returned
  a body: a body \<^verbatim>\<open>OK|id\<close> with no further \<^verbatim>\<open>|\<close> makes \<^verbatim>\<open>solve\<close> return a new
  ticket that holds \<open>id\<close>, has no cached result and is not reported; so
  \<^verbatim>\<open>OK|12345\<close> gives a ticket with id \<^verbatim>\<open>12345\<close>. A body without \<^verbatim>\<open>|\<close> makes
  \<^verbatim>\<open>solve\<close> raise \<^verbatim>\<open>OperationFailedError\<close> built from the body as received.
\<close>

theorem solve_response:
  assumes "(case file of Path p \<Rightarrow> read_path env p | FileObj r \<Rightarrow> r) = Inr raw_data"
    and "imghdr_what env raw_data = Some file_ext"
    and "requests_send env (length (calls w)) (submit_request self captcha_parameters file_ext raw_data) = Inr body"
  shows "(\<forall>cid. body = ''OK|'' @ cid \<and> CHR ''|'' \<notin> set cid \<longrightarrow>
            fst (solve env self file captcha_parameters w) =
              Inr \<lparr>api = self, captcha_id = cid, cached_result = None, reported_bad = False\<rparr>) \<and>
         (CHR ''|'' \<notin> set body \<longrightarrow>
            fst (solve env self file captcha_parameters w) = Inl (OperationFailedError body))"
proof -
  have "str_split (CHR ''|'') (''OK|'' @ cid) = [''OK'', cid]" if "CHR ''|'' \<notin> set cid" for cid
    using that by (simp add: str_split_no_sep)
  then show ?thesis
    using solve_submitted [OF assms] by (auto simp: Captcha_def)
qed

theorem solve_response_witness:
  "(case FileObj (Inr png_bytes) of Path p \<Rightarrow> read_path (stub_env (\<lambda>k r. Inr ''OK|12345'')) p | FileObj r \<Rightarrow> r)
     = Inr png_bytes \<and>
   imghdr_what (stub_env (\<lambda>k r. Inr ''OK|12345'')) png_bytes = Some ''png'' \<and>
   CHR ''|'' \<notin> set ''12345'' \<and>
   fst (solve (stub_env (\<lambda>k r. Inr ''OK|12345'')) \<lparr>api_key = ''k''\<rparr> (FileObj (Inr png_bytes)) None world0) =
     Inr \<lparr>api = \<lparr>api_key = ''k''\<rparr>, captcha_id = ''12345'', cached_result = None, reported_bad = False\<rparr> \<and>
   CHR ''|'' \<notin> set ''ERROR_ZERO_BALANCE'' \<and>
   fst (solve (stub_env (\<lambda>k r. Inr ''ERROR_ZERO_BALANCE'')) \<lparr>api_key = ''k''\<rparr> (FileObj (Inr png_bytes)) None world0) =
     Inl (OperationFailedError ''ERROR_ZERO_BALANCE'')"
proof -
  let ?a = "\<lparr>api_key = ''k''\<rparr>"
  let ?env = "stub_env (\<lambda>k r. Inr ''OK|12345'')"
  let ?env' = "stub_env (\<lambda>k r. Inr ''ERROR_ZERO_BALANCE'')"
  have h1: "(case FileObj (Inr png_bytes) of Path p \<Rightarrow> read_path ?env p | FileObj r \<Rightarrow> r) = Inr png_bytes"
    "(case FileObj (Inr png_bytes) of Path p \<Rightarrow> read_path ?env' p | FileObj r \<Rightarrow> r) = Inr png_bytes"
    by simp_all
  have h2: "imghdr_what ?env png_bytes = Some ''png''" "imghdr_what ?env' png_bytes = Some ''png''"
    by (simp_all add: stub_env_def png_bytes_def)
  have h3: "requests_send ?env (length (calls world0)) (submit_request ?a None ''png'' png_bytes) = Inr ''OK|12345''"
    by (simp add: stub_env_def)
  have h3': "requests_send ?env' (length (calls world0)) (submit_request ?a None ''png'' png_bytes)
      = Inr ''ERROR_ZERO_BALANCE''"
    by (simp add: stub_env_def)
  have A: "fst (solve ?env ?a (FileObj (Inr png_bytes)) None world0) =
     Inr \<lparr>api = ?a, captcha_id = ''12345'', cached_result = None, reported_bad = False\<rparr>"
    using solve_response [OF h1(1) h2(1) h3] by simp
  have B: "fst (solve ?env' ?a (FileObj (Inr png_bytes)) None world0) = Inl (OperationFailedError ''ERROR_ZERO_BALANCE'')"
    using solve_response [OF h1(2) h2(2) h3'] by simp
  show ?thesis using h1(1) h2(1) A B by simp
qed

lemma solve_world:
  assumes "(case file of Path p \<Rightarrow> read_path env p | FileObj r \<Rightarrow> r) = Inr raw_data"
    and "imghdr_what env raw_data = Some file_ext"
  shows "snd (solve env self file captcha_parameters w) =
           w\<lparr>calls := calls w @ [submit_request self captcha_parameters file_ext raw_data]\<rparr>"
  using assms
  by (simp add: solve_def post_simp rewrite_http_to_com_err_def rewrite_to_format_err_def
      split: sum.splits prod.splits)

lemma map_of_update_other: "k \<noteq> k' \<Longrightarrow> map_of (AList.update k' v d) k = map_of d k"
  by (simp add: update_conv')

text \<open>
  C10. When the image was read and its format recognised, \<^verbatim>\<open>solve\<close> makes one POST.
  With \<^verbatim>\<open>captcha_parameters\<close> absent (\<^verbatim>\<open>None\<close>) or empty, the form data are the default
  \<^verbatim>\<open>{'method': 'post'}\<close> with the key added. With a non-empty dict \<open>d\<close>, the form data
  are \<open>d\<close> with the key added (stored under \<^verbatim>\<open>'key'\<close>, replacing an entry of that
  name) and nothing else: every other field, \<^verbatim>\<open>'method'\<close> included, is in the form
  data exactly as it is in \<open>d\<close>, so a \<open>d\<close> without \<^verbatim>\<open>'method'\<close> is sent without it.
\<close>

theorem solve_form_data:
  assumes "(case file of Path p \<Rightarrow> read_path env p | FileObj r \<Rightarrow> r) = Inr raw_data"
    and "imghdr_what env raw_data = Some file_ext"
  shows "(captcha_parameters = None \<or> captcha_parameters = Some [] \<longrightarrow>
            calls (snd (solve env self file captcha_parameters w)) =
              calls w @ [POST REQ_URL [(''method'', ''post''), (''key'', api_key self)]
                              (''file'', ''captcha.'' @ file_ext, raw_data)]) \<and>
         (\<forall>d. captcha_parameters = Some d \<and> d \<noteq> [] \<longrightarrow>
            calls (snd (solve env self file captcha_parameters w)) =
              calls w @ [POST REQ_URL (AList.update ''key'' (api_key self) d)
                              (''file'', ''captcha.'' @ file_ext, raw_data)] \<and>
            (\<forall>k. k \<noteq> ''key'' \<longrightarrow> map_of (AList.update ''key'' (api_key self) d) k = map_of d k))"
  using solve_world [OF assms, of self captcha_parameters w]
  by (auto simp: map_of_update_other)

theorem solve_form_data_witness:
  "imghdr_what (stub_env (\<lambda>k r. Inr ''OK|12345'')) png_bytes = Some ''png'' \<and>
   calls (snd (solve (stub_env (\<lambda>k r. Inr ''OK|12345'')) \<lparr>api_key = ''k''\<rparr> (FileObj (Inr png_bytes)) None world0)) =
     [POST ''http://azcaptcha.com/in.php'' [(''method'', ''post''), (''key'', ''k'')]
           (''file'', ''captcha.png'', png_bytes)] \<and>
   calls (snd (solve (stub_env (\<lambda>k r. Inr ''OK|12345'')) \<lparr>api_key = ''k''\<rparr> (FileObj (Inr png_bytes))
                 (Some []) world0)) =
     [POST ''http://azcaptcha.com/in.php'' [(''method'', ''post''), (''key'', ''k'')]
           (''file'', ''captcha.png'', png_bytes)] \<and>
   calls (snd (solve (stub_env (\<lambda>k r. Inr ''OK|12345'')) \<lparr>api_key = ''k''\<rparr> (FileObj (Inr png_bytes))
                 (Some [(''phrase'', ''1'')]) world0)) =
     [POST ''http://azcaptcha.com/in.php'' [(''phrase'', ''1''), (''key'', ''k'')]
           (''file'', ''captcha.png'', png_bytes)]"
proof -
  let ?a = "\<lparr>api_key = ''k''\<rparr>"
  let ?env = "stub_env (\<lambda>k r. Inr ''OK|12345'')"
  have h1: "(case FileObj (Inr png_bytes) of Path p \<Rightarrow> read_path ?env p | FileObj r \<Rightarrow> r) = Inr png_bytes"
    by simp
  have h2: "imghdr_what ?env png_bytes = Some ''png''"
    by (simp add: stub_env_def png_bytes_def)
  show ?thesis
    using h2 solve_form_data [OF h1 h2, of None ?a world0]
      solve_form_data [OF h1 h2, of "Some []" ?a world0]
      solve_form_data [OF h1 h2, of "Some [(''phrase'', ''1'')]" ?a world0]
    by (simp add: world0_def REQ_URL_def BASE_URL_def)
qed


subsection \<open>The balance\<close>

lemma get_balance_returned:
  assumes "requests_send env (length (calls w)) (balance_request self) = Inr body"
  shows "get_balance env self w =
     (case py_float env body of
        Some v \<Rightarrow> (Inr v, w\<lparr>calls := calls w @ [balance_request self]\<rparr>)
      | None \<Rightarrow> (Inl (ResponseFormatError ''unexpected response format''),
                 w\<lparr>calls := calls w @ [balance_request self]\<rparr>))"
  using assms
  by (simp add: get_balance_def get_simp rewrite_http_to_com_err_def rewrite_to_format_err_def
      split: option.splits)

text \<open>\<open>python_float\<close> on the bodies of the examples.\<close>

lemmas float_eval = python_float_def transform_decimal_and_space_def is_digit_def c_isspace_def
  unicode_isspace_def lower_code_def strip_sign_def parse_inf_or_nan_def digits_value_def
  floor_log2_def round_half_even_def pow_int_def round64_def strtod_def Let_def

lemma python_float_12_34:
  "python_float ''12.34'' = Some (Finite False (3473401212609495 / 281474976710656))"
  by (simp add: float_eval)

lemma python_float_neg: "python_float ''-1.5'' = Some (Finite True (3 / 2))"
  by (simp add: float_eval)

lemma python_float_exp: "python_float ''1e3'' = Some (Finite False 1000)"
  by (simp add: float_eval)

lemma python_float_group: "python_float '' 1_000.5 '' = Some (Finite False (2001 / 2))"
  by (simp add: float_eval)

lemma python_float_inf: "python_float ''-Infinity'' = Some (Infinite True)"
  by (simp add: float_eval)

lemma python_float_nan: "python_float ''nan'' = Some NaN"
  by (simp add: float_eval)

lemma python_float_error: "python_float ''ERROR_WRONG_USER_KEY'' = None"
  by (simp add: float_eval)

text \<open>
  C9. When the transport returns a body, \<^verbatim>\<open>get_balance\<close> returns what \<^verbatim>\<open>float\<close>
  makes of the body whenever \<^verbatim>\<open>float\<close> accepts it, and raises
  \<^verbatim>\<open>ResponseFormatError\<close> for every body \<^verbatim>\<open>float\<close> rejects; one HTTP call is made.
  With Python's \<^verbatim>\<open>float\<close>, the body \<^verbatim>\<open>12.34\<close> returns the binary64 number 12.34
  (that is \<open>3473401212609495 / 2 ^ 48\<close>) and the body \<^verbatim>\<open>ERROR_WRONG_USER_KEY\<close> raises
  \<^verbatim>\<open>ResponseFormatError\<close>.
\<close>

theorem get_balance_parses:
  assumes "requests_send env (length (calls w)) (balance_request self) = Inr body"
  shows "(\<forall>v. py_float env body = Some v \<longrightarrow>
            get_balance env self w = (Inr v, w\<lparr>calls := calls w @ [balance_request self]\<rparr>)) \<and>
         (py_float env body = None \<longrightarrow>
            get_balance env self w =
              (Inl (ResponseFormatError ''unexpected response format''),
               w\<lparr>calls := calls w @ [balance_request self]\<rparr>))"
  using get_balance_returned [OF assms] by simp

theorem get_balance_parses_witness:
  "py_float (stub_env (\<lambda>k r. Inr ''12.34'')) ''12.34'' =
     Some (Finite False (3473401212609495 / 281474976710656)) \<and>
   fst (get_balance (stub_env (\<lambda>k r. Inr ''12.34'')) \<lparr>api_key = ''k''\<rparr> world0) =
     Inr (Finite False (3473401212609495 / 281474976710656)) \<and>
   py_float (stub_env (\<lambda>k r. Inr ''ERROR_WRONG_USER_KEY'')) ''ERROR_WRONG_USER_KEY'' = None \<and>
   fst (get_balance (stub_env (\<lambda>k r. Inr ''ERROR_WRONG_USER_KEY'')) \<lparr>api_key = ''k''\<rparr> world0) =
     Inl (ResponseFormatError ''unexpected response format'')"
proof -
  let ?a = "\<lparr>api_key = ''k''\<rparr>"
  have f1: "py_float (stub_env (\<lambda>k r. Inr ''12.34'')) ''12.34'' =
      Some (Finite False (3473401212609495 / 281474976710656))"
    by (simp add: stub_env_def python_float_12_34)
  have f2: "py_float (stub_env (\<lambda>k r. Inr ''ERROR_WRONG_USER_KEY'')) ''ERROR_WRONG_USER_KEY'' = None"
    by (simp add: stub_env_def python_float_error)
  have h1: "requests_send (stub_env (\<lambda>k r. Inr ''12.34'')) (length (calls world0)) (balance_request ?a)
      = Inr ''12.34''"
    by (simp add: stub_env_def)
  have h2: "requests_send (stub_env (\<lambda>k r. Inr ''ERROR_WRONG_USER_KEY'')) (length (calls world0))
      (balance_request ?a) = Inr ''ERROR_WRONG_USER_KEY''"
    by (simp add: stub_env_def)
  have A: "fst (get_balance (stub_env (\<lambda>k r. Inr ''12.34'')) ?a world0) =
      Inr (Finite False (3473401212609495 / 281474976710656))"
    using get_balance_parses [OF h1] f1 by simp
  have B: "fst (get_balance (stub_env (\<lambda>k r. Inr ''ERROR_WRONG_USER_KEY'')) ?a world0) =
      Inl (ResponseFormatError ''unexpected response format'')"
    using get_balance_parses [OF h2] f2 by simp
  show ?thesis using f1 f2 A B by simp
qed

text \<open>
  C9, on a body that is no number. Not every such body raises: \<^verbatim>\<open>float\<close> accepts \<^verbatim>\<open>nan\<close>, \<^verbatim>\<open>inf\<close> and
  \<^verbatim>\<open>infinity\<close>. On the body \<^verbatim>\<open>nan\<close>, \<^verbatim>\<open>get_balance\<close> returns the float NaN and
  raises nothing.
\<close>

theorem get_balance_nan_counterexample:
  "py_float (stub_env (\<lambda>k r. Inr ''nan'')) ''nan'' = Some NaN \<and>
   get_balance (stub_env (\<lambda>k r. Inr ''nan'')) \<lparr>api_key = ''k''\<rparr> world0 =
     (Inr NaN, world0\<lparr>calls := [GET ''http://azcaptcha.com/res.php''
                                    [(''action'', ''getbalance''), (''key'', ''k'')]]\<rparr>) \<and>
   fst (get_balance (stub_env (\<lambda>k r. Inr ''nan'')) \<lparr>api_key = ''k''\<rparr> world0) \<noteq>
     Inl (ResponseFormatError ''unexpected response format'')"
proof -
  let ?a = "\<lparr>api_key = ''k''\<rparr>"
  let ?env = "stub_env (\<lambda>k r. Inr ''nan'')"
  have f: "py_float ?env ''nan'' = Some NaN"
    by (simp add: stub_env_def python_float_nan)
  have r: "get_balance ?env ?a world0 = (Inr NaN, world0\<lparr>calls := calls world0 @ [balance_request ?a]\<rparr>)"
    by (subst get_balance_returned [where body = "''nan''"]) (simp_all add: f, simp add: stub_env_def)
  show ?thesis
    by (simp only: f r) (simp add: world0_def RES_URL_def BASE_URL_def)
qed

subsection \<open>Reporting a bad solution\<close>

lemma report_bad_ready:
  assumes "cached_result self = Some r"
    and "\<not> reported_bad self"
    and "requests_send env (length (calls w)) (report_request self) = Inr body"
  shows "report_bad env (self, w) =
     (if body \<noteq> ''OK_REPORT_RECORDED''
      then (Inl (ResponseFormatError ''unexpected API response''), self,
            w\<lparr>calls := calls w @ [report_request self]\<rparr>)
      else (Inr (), self, w\<lparr>calls := calls w @ [report_request self]\<rparr>))"
  using assms by (simp add: report_bad_def get_simp rewrite_http_to_com_err_def)

text \<open>
  C8. For a ticket with a cached result and not yet reported, when the transport
  returns a body: \<^verbatim>\<open>report_bad\<close> succeeds exactly when the body is the literal
  \<^verbatim>\<open>OK_REPORT_RECORDED\<close>, and every other body raises \<^verbatim>\<open>ResponseFormatError\<close>.
\<close>

theorem report_bad_response:
  assumes "cached_result self = Some r"
    and "\<not> reported_bad self"
    and "requests_send env (length (calls w)) (report_request self) = Inr body"
  shows "(fst (report_bad env (self, w)) = Inr () \<longleftrightarrow> body = ''OK_REPORT_RECORDED'') \<and>
         (body \<noteq> ''OK_REPORT_RECORDED'' \<longrightarrow>
            fst (report_bad env (self, w)) = Inl (ResponseFormatError ''unexpected API response''))"
  using report_bad_ready [OF assms] by simp

theorem report_bad_response_witness:
  "cached_result ((Captcha \<lparr>api_key = ''k''\<rparr> ''7'')\<lparr>cached_result := Some ''abc''\<rparr>) = Some ''abc'' \<and>
   \<not> reported_bad ((Captcha \<lparr>api_key = ''k''\<rparr> ''7'')\<lparr>cached_result := Some ''abc''\<rparr>) \<and>
   fst (report_bad (stub_env (\<lambda>k r. Inr ''OK_REPORT_RECORDED''))
          ((Captcha \<lparr>api_key = ''k''\<rparr> ''7'')\<lparr>cached_result := Some ''abc''\<rparr>, world0)) = Inr () \<and>
   fst (report_bad (stub_env (\<lambda>k r. Inr ''ERROR_WRONG_CAPTCHA_ID''))
          ((Captcha \<lparr>api_key = ''k''\<rparr> ''7'')\<lparr>cached_result := Some ''abc''\<rparr>, world0)) =
     Inl (ResponseFormatError ''unexpected API response'')"
proof -
  let ?c = "(Captcha \<lparr>api_key = ''k''\<rparr> ''7'')\<lparr>cached_result := Some ''abc''\<rparr>"
  have h1: "cached_result ?c = Some ''abc''" by simp
  have h2: "\<not> reported_bad ?c" by (simp add: Captcha_def)
  have h3: "requests_send (stub_env (\<lambda>k r. Inr ''OK_REPORT_RECORDED'')) (length (calls world0))
              (report_request ?c) = Inr ''OK_REPORT_RECORDED''"
    by (simp add: stub_env_def)
  have h3': "requests_send (stub_env (\<lambda>k r. Inr ''ERROR_WRONG_CAPTCHA_ID'')) (length (calls world0))
              (report_request ?c) = Inr ''ERROR_WRONG_CAPTCHA_ID''"
    by (simp add: stub_env_def)
  show ?thesis
    using h1 h2 report_bad_response [OF h1 h2 h3] report_bad_response [OF h1 h2 h3']
    by simp
qed

text \<open>
  What \<^verbatim>\<open>report_bad\<close> does to the ticket: nothing, on every path. The two usage
  errors are \<^verbatim>\<open>ValueError\<close>s, which the decorator of \<^verbatim>\<open>report_bad\<close> lets through.
\<close>

lemma report_bad_keeps_ticket: "fst (snd (report_bad env (self, w))) = self"
  by (simp add: report_bad_def get_simp rewrite_http_to_com_err_def split: sum.splits)

lemma report_bad_too_early:
  assumes "cached_result self = None"
  shows "report_bad env (self, w) =
     (Inl (Raised [ValueError] ''tried reporting bad state for captcha not yet retrieved''), self, w)"
  using assms by (simp add: report_bad_def rewrite_http_to_com_err_def)

lemma report_bad_flag_set:
  assumes "cached_result self = Some r" and "reported_bad self"
  shows "report_bad env (self, w) = (Inl (Raised [ValueError] ''tried double-reporting bad captcha''), self, w)"
  using assms by (simp add: report_bad_def rewrite_http_to_com_err_def)

text \<open>
  C1. A run of the code: a ticket is resolved by a
  successful \<^verbatim>\<open>try_get_result\<close>, then \<^verbatim>\<open>report_bad\<close> is called twice, the server
  answering \<^verbatim>\<open>OK_REPORT_RECORDED\<close> each time. The first report succeeds and leaves
  \<open>reported_bad\<close> false; the second report succeeds as well, where the specification
  has a usage error: no statement of \<^verbatim>\<open>report_bad\<close> assigns \<^verbatim>\<open>_reported_bad\<close>.
\<close>

theorem report_bad_second_call_succeeds:
  "fst (try_get_result (stub_env (stub_send_script [''OK|abc'', ''OK_REPORT_RECORDED'', ''OK_REPORT_RECORDED'']))
          (Captcha \<lparr>api_key = ''k''\<rparr> ''7'', world0)) = Inr (Some ''abc'') \<and>
   fst (report_bad (stub_env (stub_send_script [''OK|abc'', ''OK_REPORT_RECORDED'', ''OK_REPORT_RECORDED'']))
          (snd (try_get_result (stub_env (stub_send_script [''OK|abc'', ''OK_REPORT_RECORDED'', ''OK_REPORT_RECORDED'']))
                  (Captcha \<lparr>api_key = ''k''\<rparr> ''7'', world0)))) = Inr () \<and>
   reported_bad (fst (snd
     (report_bad (stub_env (stub_send_script [''OK|abc'', ''OK_REPORT_RECORDED'', ''OK_REPORT_RECORDED'']))
          (snd (try_get_result (stub_env (stub_send_script [''OK|abc'', ''OK_REPORT_RECORDED'', ''OK_REPORT_RECORDED'']))
                  (Captcha \<lparr>api_key = ''k''\<rparr> ''7'', world0)))))) = False \<and>
   fst (report_bad (stub_env (stub_send_script [''OK|abc'', ''OK_REPORT_RECORDED'', ''OK_REPORT_RECORDED'']))
     (snd (report_bad (stub_env (stub_send_script [''OK|abc'', ''OK_REPORT_RECORDED'', ''OK_REPORT_RECORDED'']))
          (snd (try_get_result (stub_env (stub_send_script [''OK|abc'', ''OK_REPORT_RECORDED'', ''OK_REPORT_RECORDED'']))
                  (Captcha \<lparr>api_key = ''k''\<rparr> ''7'', world0)))))) = Inr ()"
proof -
  let ?env = "stub_env (stub_send_script [''OK|abc'', ''OK_REPORT_RECORDED'', ''OK_REPORT_RECORDED''])"
  let ?c0 = "Captcha \<lparr>api_key = ''k''\<rparr> ''7''"
  let ?c1 = "?c0\<lparr>cached_result := Some ''abc''\<rparr>"
  let ?w1 = "world0\<lparr>calls := [poll_request ?c0]\<rparr>"
  let ?w2 = "world0\<lparr>calls := [poll_request ?c0, report_request ?c0]\<rparr>"
  let ?w3 = "world0\<lparr>calls := [poll_request ?c0, report_request ?c0, report_request ?c0]\<rparr>"
  have s1: "try_get_result ?env (?c0, world0) = (Inr (Some ''abc''), ?c1, ?w1)"
    by (subst try_get_result_poll [where body = "''OK|abc''"])
       (simp_all add: Captcha_def stub_env_def stub_send_script_def world0_def)
  have s2: "report_bad ?env (?c1, ?w1) = (Inr (), ?c1, ?w2)"
    by (subst report_bad_ready [where body = "''OK_REPORT_RECORDED''" and r = "''abc''"])
       (simp_all add: Captcha_def stub_env_def stub_send_script_def world0_def)
  have s3: "report_bad ?env (?c1, ?w2) = (Inr (), ?c1, ?w3)"
    by (subst report_bad_ready [where body = "''OK_REPORT_RECORDED''" and r = "''abc''"])
       (simp_all add: Captcha_def stub_env_def stub_send_script_def world0_def)
  show ?thesis
    by (simp only: s1 s2 s3 fst_conv snd_conv) (simp add: Captcha_def)
qed

subsection \<open>Transport failures\<close>

text \<open>
  An exception \<open>e\<close> of the transport that is a \<^verbatim>\<open>RequestException\<close>. The methods
  decorated with \<^verbatim>\<open>_rewrite_http_to_com_err\<close> alone raise \<^verbatim>\<open>CommunicationError\<close>.
  The methods that also carry \<^verbatim>\<open>_rewrite_to_format_err\<close> run it first, as the inner
  decorator: if \<open>e\<close> is an instance of one of its classes too, it becomes
  \<^verbatim>\<open>ResponseFormatError\<close>, which the outer decorator lets through.
\<close>

lemma transport_failure_plain:
  assumes "\<forall>r. requests_send env (length (calls w)) r = Inl e"
    and "isinstance e RequestException"
  shows "fst (get_stats env a (DateStr d) w) = Inl com_err"
    and "fst (get_load env a w) = Inl com_err"
    and "cached_result self \<noteq> None \<Longrightarrow> \<not> reported_bad self \<Longrightarrow> fst (report_bad env (self, w)) = Inl com_err"
  using assms
  by (simp_all add: get_stats_def get_load_def report_bad_def get_simp rewrite_http_to_com_err_def com_err_def)

lemma transport_failure_parsed:
  assumes "\<forall>r. requests_send env (length (calls w)) r = Inl e"
    and "isinstance e RequestException"
  shows "fst (get_balance env a w) =
           (if isinstance e ValueError then Inl (ResponseFormatError ''unexpected response format'')
            else Inl com_err)"
    and "cached_result self = None \<Longrightarrow> fst (try_get_result env (self, w)) =
           (if isinstance e ValueError then Inl (ResponseFormatError ''unexpected response format'')
            else Inl com_err)"
    and "(case file of Path p \<Rightarrow> read_path env p | FileObj r \<Rightarrow> r) = Inr raw_data \<Longrightarrow>
         imghdr_what env raw_data = Some file_ext \<Longrightarrow>
         fst (solve env a file captcha_parameters w) =
           (if isinstance e IndexError \<or> isinstance e ValueError
            then Inl (ResponseFormatError ''unexpected response format'')
            else Inl com_err)"
  using assms
  by (simp_all add: get_balance_def try_get_result_def solve_def get_simp post_simp
      rewrite_http_to_com_err_def rewrite_to_format_err_def com_err_def)

text \<open>
  C7. A run of the code on one transport failure in four operations: the transport
  raises an exception that is a \<^verbatim>\<open>RequestException\<close> and a \<^verbatim>\<open>ValueError\<close>, as
  \<^verbatim>\<open>requests.exceptions.InvalidSchema\<close> is (raised when a redirect leads to a URL
  scheme without a connection adapter). \<^verbatim>\<open>get_load\<close> raises \<^verbatim>\<open>CommunicationError\<close>;
  \<^verbatim>\<open>get_balance\<close>, \<^verbatim>\<open>try_get_result\<close> and \<^verbatim>\<open>solve\<close> raise
  \<^verbatim>\<open>ResponseFormatError\<close>.
\<close>

theorem transport_failure_not_uniform:
  "fst (get_load (stub_env (\<lambda>k r. Inl (Raised [RequestException, ValueError] ''No connection adapters were found'')))
          \<lparr>api_key = ''k''\<rparr> world0) =
     Inl (CommunicationError ''an error occurred while communicating with the AZCaptcha API'') \<and>
   fst (get_balance (stub_env (\<lambda>k r. Inl (Raised [RequestException, ValueError] ''No connection adapters were found'')))
          \<lparr>api_key = ''k''\<rparr> world0) =
     Inl (ResponseFormatError ''unexpected response format'') \<and>
   fst (try_get_result (stub_env (\<lambda>k r. Inl (Raised [RequestException, ValueError] ''No connection adapters were found'')))
          (Captcha \<lparr>api_key = ''k''\<rparr> ''7'', world0)) =
     Inl (ResponseFormatError ''unexpected response format'') \<and>
   fst (solve (stub_env (\<lambda>k r. Inl (Raised [RequestException, ValueError] ''No connection adapters were found'')))
          \<lparr>api_key = ''k''\<rparr> (FileObj (Inr png_bytes)) None world0) =
     Inl (ResponseFormatError ''unexpected response format'')"
  by (simp add: get_load_def get_balance_def try_get_result_def solve_def get_simp post_simp
      rewrite_http_to_com_err_def rewrite_to_format_err_def stub_env_def Captcha_def png_bytes_def)


end
